theory Spec2Isabelle
  imports Complex_Main
begin

section \<open>JavaScript numbers, as far as the pagination bar needs them\<close>









section \<open>editorPaginationBar.tsx: \<open>EditorPaginationBar\<close>\<close>








section \<open>The toolbar: what a click handler does, as a trace\<close>

text \<open>
  The handlers of the toolbar are \<open>async\<close> functions whose only results are effects:
  updates of the shared status and toolbar stores, HTTP requests to the backend, awaited
  timers and console messages. A handler is modelled as the list of the effects it
  performs, in order. \<open>await\<close> is sequential composition: what follows an awaited
  request in the source follows it in the trace, and is only there when the request
  resolved; a rejected request continues at the enclosing \<open>catch\<close>.
\<close>

text \<open>The three forms of request the toolbar sends, each a \<open>GET\<close>:
  \<^item> \<open>${Endpoints.WORKSPACE_DOWNLOAD}/${savePath}\<close> with params \<open>source, override, gene\<close>;
  \<^item> \<open>${Endpoints.WORKSPACE_MERGE}/<kind>/${savePath}\<close> with params \<open>override\<close> and the
    source files, by parameter name;
  \<^item> \<open>${Endpoints.WORKSPACE_APPLY}/<tool>/${savePath}\<close> with params \<open>override, applyTo\<close>.\<close>

datatype request =
  WORKSPACE_DOWNLOAD string string bool string
| WORKSPACE_MERGE string string bool "(string \<times> string) list"
| WORKSPACE_APPLY string string bool string

datatype event =
  BlockedStateUpdate bool
| SaveToErrorStateUpdate string
| LovdErrorStateUpdate string
| ClinvarErrorStateUpdate string
| GnomadErrorStateUpdate string
| Get request
| SetTimeout nat
| ConsoleError string

text \<open>A file object of the workspace: its identity as a JavaScript object (what
  \<open>!==\<close> compares) and its \<open>id\<close>, the workspace-relative path.\<close>

record FileModel =
  objref :: nat
  file_id :: string

text \<open>
  What a handler reads: the toolbar context (\<open>useToolbarContext\<close>), the file tree
  (\<open>useWorkspaceContext\<close>) and the imports that are not part of the sources at hand:
  \<open>defaultSaveTo\<close> and the utilities \<open>findUniqueFileName\<close>, \<open>generateTimestamp\<close>,
  \<open>getFileExtension\<close>, which are parameters here. \<open>generateTimestamp\<close> reads the
  clock: its argument is the number of the call within one run of a handler. The values
  are those the handler closes over (\<open>useCallback\<close>); they do not change during a run.
\<close>

record 'tree ToolbarContext =
  fileTree :: 'tree
  saveTo :: FileModel
  defaultSaveTo :: FileModel
  override :: bool
  gene :: string
  lovdFile :: "FileModel option"
  clinvarFile :: "FileModel option"
  gnomadFile :: "FileModel option"
  customFile :: "FileModel option"
  findUniqueFileName :: "'tree \<Rightarrow> string \<Rightarrow> string"
  generateTimestamp :: "nat \<Rightarrow> string"
  getFileExtension :: "string \<Rightarrow> string"

text \<open>The backend's answers are a parameter too: \<open>resolves k\<close> tells whether the
  \<open>k\<close>-th request of the run (counted from 0) resolves; otherwise it rejects.\<close>

type_synonym outcomes = "nat \<Rightarrow> bool"

subsection \<open>automaticGroupButtons.tsx: \<open>handlePerformAllClick\<close>\<close>

text \<open>The file paths of the run, in the order the source computes them.\<close>

definition revelSavePath :: "'tree ToolbarContext \<Rightarrow> string" where
  "revelSavePath c =
     (if file_id (saveTo c) \<noteq> file_id (defaultSaveTo c) then file_id (saveTo c)
      else findUniqueFileName c (fileTree c) (''auto_revel_'' @ generateTimestamp c 0 @ ''.csv''))"

definition lovdFilePath :: "'tree ToolbarContext \<Rightarrow> string" where
  "lovdFilePath c = findUniqueFileName c (fileTree c) (''lovd_'' @ generateTimestamp c 1 @ ''.txt'')"

definition clinvarFilePath :: "'tree ToolbarContext \<Rightarrow> string" where
  "clinvarFilePath c = findUniqueFileName c (fileTree c) (''clinvar_'' @ generateTimestamp c 2 @ ''.csv'')"

definition gnomadFilePath :: "'tree ToolbarContext \<Rightarrow> string" where
  "gnomadFilePath c = findUniqueFileName c (fileTree c) (''gnomad_'' @ generateTimestamp c 3 @ ''.csv'')"

definition mergeAllFilePath :: "'tree ToolbarContext \<Rightarrow> string" where
  "mergeAllFilePath c = findUniqueFileName c (fileTree c) (''all_merged_'' @ generateTimestamp c 4 @ ''.csv'')"

definition applySpliceAiFilePath :: "'tree ToolbarContext \<Rightarrow> string" where
  "applySpliceAiFilePath c = findUniqueFileName c (fileTree c) (''spliceai_'' @ generateTimestamp c 5 @ ''.csv'')"

definition applyCaddFilePath :: "'tree ToolbarContext \<Rightarrow> string" where
  "applyCaddFilePath c = findUniqueFileName c (fileTree c) (''cadd_'' @ generateTimestamp c 6 @ ''.csv'')"

text \<open>The seven requests of the run.\<close>

definition downloadLovd :: "'tree ToolbarContext \<Rightarrow> request" where
  "downloadLovd c = WORKSPACE_DOWNLOAD (lovdFilePath c) ''lovd'' (override c) (gene c)"

definition downloadClinvar :: "'tree ToolbarContext \<Rightarrow> request" where
  "downloadClinvar c = WORKSPACE_DOWNLOAD (clinvarFilePath c) ''clinvar'' (override c) (gene c)"

definition downloadGnomad :: "'tree ToolbarContext \<Rightarrow> request" where
  "downloadGnomad c = WORKSPACE_DOWNLOAD (gnomadFilePath c) ''gnomad'' (override c) (gene c)"

definition mergeAll :: "'tree ToolbarContext \<Rightarrow> request" where
  "mergeAll c = WORKSPACE_MERGE ''all'' (mergeAllFilePath c) (override c)
     [(''lovdFile'', lovdFilePath c), (''clinvarFile'', clinvarFilePath c),
      (''gnomadFile'', gnomadFilePath c), (''customFile'', '''')]"

definition applySpliceAi :: "'tree ToolbarContext \<Rightarrow> request" where
  "applySpliceAi c = WORKSPACE_APPLY ''spliceai'' (applySpliceAiFilePath c) (override c) (mergeAllFilePath c)"

definition applyCadd :: "'tree ToolbarContext \<Rightarrow> request" where
  "applyCadd c = WORKSPACE_APPLY ''cadd'' (applyCaddFilePath c) (override c) (applySpliceAiFilePath c)"

definition applyRevel :: "'tree ToolbarContext \<Rightarrow> request" where
  "applyRevel c = WORKSPACE_APPLY ''revel'' (revelSavePath c) (override c) (applyCaddFilePath c)"

text \<open>The pause between two stages and the re-blocking of the UI after it:
  \<open>await new Promise((resolve) => setTimeout(resolve, 500)); blockedStateUpdate(true);\<close>\<close>

definition pause :: "event list" where
  "pause = [SetTimeout 500, BlockedStateUpdate True]"

text \<open>The one \<open>catch\<close> of the handler.\<close>

definition automatedTaskFailed :: "event list" where
  "automatedTaskFailed = [ConsoleError ''Automated task failed:'']"

text \<open>The body of the \<open>try\<close> block: one request after the other; the first that
  rejects ends the block at the \<open>catch\<close>.\<close>

definition performAllTry :: "'tree ToolbarContext \<Rightarrow> outcomes \<Rightarrow> event list" where
  "performAllTry c resolves =
     Get (downloadLovd c) #
     (if \<not> resolves 0 then automatedTaskFailed else pause @
     Get (downloadClinvar c) #
     (if \<not> resolves 1 then automatedTaskFailed else pause @
     Get (downloadGnomad c) #
     (if \<not> resolves 2 then automatedTaskFailed else pause @
     Get (mergeAll c) #
     (if \<not> resolves 3 then automatedTaskFailed else pause @
     Get (applySpliceAi c) #
     (if \<not> resolves 4 then automatedTaskFailed else pause @
     Get (applyCadd c) #
     (if \<not> resolves 5 then automatedTaskFailed else pause @
     Get (applyRevel c) #
     (if \<not> resolves 6 then automatedTaskFailed else [])))))))"

definition handlePerformAllClick :: "'tree ToolbarContext \<Rightarrow> outcomes \<Rightarrow> event list" where
  "handlePerformAllClick c resolves =
     (if getFileExtension c (revelSavePath c) \<noteq> ''csv'' then [SaveToErrorStateUpdate ''Select .csv'']
      else BlockedStateUpdate True # performAllTry c resolves @ [BlockedStateUpdate False])"


subsection \<open>The second \<open>AutomaticGroupButtons\<close> (unnamed source part 3): \<open>handlePerformAllClick\<close>\<close>

text \<open>
  This variant wraps every stage in a \<open>try\<close>/\<open>catch\<close>/\<open>finally\<close> of its own and keeps the
  path of a stage in a variable that starts as the empty string and is assigned after the
  awaited request. One stage: block the UI, send the request, log a rejection, unblock.
\<close>

definition stage :: "request \<Rightarrow> bool \<Rightarrow> string \<Rightarrow> event list" where
  "stage r ok msg =
     [BlockedStateUpdate True, Get r] @ (if ok then [] else [ConsoleError msg]) @ [BlockedStateUpdate False]"

text \<open>The value of a path variable after its stage.\<close>

definition assigned :: "bool \<Rightarrow> string \<Rightarrow> string" where
  "assigned ok savePath = (if ok then savePath else '''')"

definition lovdFilePath2 :: "'tree ToolbarContext \<Rightarrow> string" where
  "lovdFilePath2 c = findUniqueFileName c (fileTree c) (''lovd_'' @ generateTimestamp c 0 @ ''.txt'')"

definition clinvarFilePath2 :: "'tree ToolbarContext \<Rightarrow> string" where
  "clinvarFilePath2 c = findUniqueFileName c (fileTree c) (''clinvar_'' @ generateTimestamp c 1 @ ''.csv'')"

definition gnomadFilePath2 :: "'tree ToolbarContext \<Rightarrow> string" where
  "gnomadFilePath2 c = findUniqueFileName c (fileTree c) (''gnomad_'' @ generateTimestamp c 2 @ ''.csv'')"

definition mergeAllFilePath2 :: "'tree ToolbarContext \<Rightarrow> string" where
  "mergeAllFilePath2 c = findUniqueFileName c (fileTree c) (''all_merged_'' @ generateTimestamp c 3 @ ''.csv'')"

definition applyAllSavePath :: "'tree ToolbarContext \<Rightarrow> string" where
  "applyAllSavePath c =
     (if file_id (saveTo c) \<noteq> file_id (defaultSaveTo c) then file_id (saveTo c)
      else findUniqueFileName c (fileTree c) (''auto_'' @ generateTimestamp c 4 @ ''.csv''))"

definition downloadLovd2 :: "'tree ToolbarContext \<Rightarrow> request" where
  "downloadLovd2 c = WORKSPACE_DOWNLOAD (lovdFilePath2 c) ''lovd'' (override c) (gene c)"

definition downloadClinvar2 :: "'tree ToolbarContext \<Rightarrow> request" where
  "downloadClinvar2 c = WORKSPACE_DOWNLOAD (clinvarFilePath2 c) ''clinvar'' (override c) (gene c)"

definition downloadGnomad2 :: "'tree ToolbarContext \<Rightarrow> request" where
  "downloadGnomad2 c = WORKSPACE_DOWNLOAD (gnomadFilePath2 c) ''gnomad'' (override c) (gene c)"

definition mergeAll2 :: "'tree ToolbarContext \<Rightarrow> outcomes \<Rightarrow> request" where
  "mergeAll2 c resolves = WORKSPACE_MERGE ''all'' (mergeAllFilePath2 c) (override c)
     [(''lovdFile'', assigned (resolves 0) (lovdFilePath2 c)),
      (''clinvarFile'', assigned (resolves 1) (clinvarFilePath2 c)),
      (''gnomadFile'', assigned (resolves 2) (gnomadFilePath2 c)),
      (''customFile'', '''')]"

definition applyAll :: "'tree ToolbarContext \<Rightarrow> outcomes \<Rightarrow> request" where
  "applyAll c resolves = WORKSPACE_APPLY ''all'' (applyAllSavePath c) (override c)
     (assigned (resolves 3) (mergeAllFilePath2 c))"

definition handlePerformAllClick2 :: "'tree ToolbarContext \<Rightarrow> outcomes \<Rightarrow> event list" where
  "handlePerformAllClick2 c resolves =
     stage (downloadLovd2 c) (resolves 0) ''Error downloading LOVD file:'' @
     [SetTimeout 500] @
     stage (downloadClinvar2 c) (resolves 1) ''Error downloading ClinVar file:'' @
     [SetTimeout 500] @
     stage (downloadGnomad2 c) (resolves 2) ''Error downloading gnomAD file:'' @
     [SetTimeout 500] @
     stage (mergeAll2 c resolves) (resolves 3) ''Error merging all files:'' @
     [SetTimeout 500] @
     [BlockedStateUpdate True] @
     (if getFileExtension c (applyAllSavePath c) \<noteq> ''csv'' then [SaveToErrorStateUpdate ''Select .csv'']
      else Get (applyAll c resolves) # (if resolves 4 then [] else [ConsoleError ''Error applying ALL:''])) @
     [BlockedStateUpdate False] @
     [BlockedStateUpdate False]"

subsection \<open>The merge buttons (unnamed source part 3): \<open>MergeGroupButtons\<close>\<close>

text \<open>\<open>if (!file) errorStateUpdate(message)\<close>.\<close>

definition unlessSelected :: "FileModel option \<Rightarrow> event \<Rightarrow> event list" where
  "unlessSelected f e = (case f of None \<Rightarrow> [e] | Some _ \<Rightarrow> [])"

text \<open>\<open>saveTo !== defaultSaveTo ? saveTo.id : findUniqueFileName(fileTree, name)\<close>; the
  comparison is by object identity here.\<close>

definition mergeSavePath :: "'tree ToolbarContext \<Rightarrow> string \<Rightarrow> string" where
  "mergeSavePath c prefix =
     (if objref (saveTo c) \<noteq> objref (defaultSaveTo c) then file_id (saveTo c)
      else findUniqueFileName c (fileTree c) (prefix @ generateTimestamp c 0 @ ''.csv''))"

text \<open>The \<open>try\<close>/\<open>catch\<close>/\<open>finally\<close> the three handlers share: the extension check,
  the request, the log of a rejection, the unblocking.\<close>

definition mergeTry :: "'tree ToolbarContext \<Rightarrow> string \<Rightarrow> request \<Rightarrow> string \<Rightarrow> outcomes \<Rightarrow> event list" where
  "mergeTry c savePath r msg resolves =
     BlockedStateUpdate True #
     (if getFileExtension c savePath \<noteq> ''csv'' then [SaveToErrorStateUpdate ''Select .csv'']
      else Get r # (if resolves 0 then [] else [ConsoleError msg])) @
     [BlockedStateUpdate False]"

text \<open>\<open>customFile?.id || ''\<close>.\<close>

definition customFileId :: "'tree ToolbarContext \<Rightarrow> string" where
  "customFileId c = (case customFile c of None \<Rightarrow> '''' | Some f \<Rightarrow> file_id f)"

definition mergeAllClick :: "'tree ToolbarContext \<Rightarrow> outcomes \<Rightarrow> event list" where
  "mergeAllClick c resolves =
     [LovdErrorStateUpdate '''', ClinvarErrorStateUpdate '''', GnomadErrorStateUpdate ''''] @
     unlessSelected (lovdFile c) (LovdErrorStateUpdate ''Please select a LOVD file'') @
     unlessSelected (clinvarFile c) (ClinvarErrorStateUpdate ''Please select a ClinVar file'') @
     unlessSelected (gnomadFile c) (GnomadErrorStateUpdate ''Please select a gnomAD file'') @
     (case (lovdFile c, clinvarFile c, gnomadFile c) of
        (Some lovd, Some clinvar, Some gnomad) \<Rightarrow>
          (let savePath = mergeSavePath c ''all_merged_'' in
           mergeTry c savePath
             (WORKSPACE_MERGE ''all'' savePath (override c)
                [(''lovdFile'', file_id lovd), (''clinvarFile'', file_id clinvar),
                 (''gnomadFile'', file_id gnomad), (''customFile'', customFileId c)])
             ''Error merging all files:'' resolves)
      | _ \<Rightarrow> [])"

definition mergeLovdAndGnomadClick :: "'tree ToolbarContext \<Rightarrow> outcomes \<Rightarrow> event list" where
  "mergeLovdAndGnomadClick c resolves =
     [ClinvarErrorStateUpdate ''''] @
     unlessSelected (lovdFile c) (LovdErrorStateUpdate ''Please select a LOVD file'') @
     unlessSelected (gnomadFile c) (GnomadErrorStateUpdate ''Please select a gnomAD file'') @
     (case (lovdFile c, gnomadFile c) of
        (Some lovd, Some gnomad) \<Rightarrow>
          (let savePath = mergeSavePath c ''lovd_gnomad_'' in
           mergeTry c savePath
             (WORKSPACE_MERGE ''lovd_gnomad'' savePath (override c)
                [(''lovdFile'', file_id lovd), (''gnomadFile'', file_id gnomad)])
             ''Error merging LOVD & gnomAD files:'' resolves)
      | _ \<Rightarrow> [])"

definition mergeLovdAndClinvarClick :: "'tree ToolbarContext \<Rightarrow> outcomes \<Rightarrow> event list" where
  "mergeLovdAndClinvarClick c resolves =
     [GnomadErrorStateUpdate ''''] @
     unlessSelected (lovdFile c) (LovdErrorStateUpdate ''Please select a LOVD file'') @
     unlessSelected (clinvarFile c) (ClinvarErrorStateUpdate ''Please select a ClinVar file'') @
     (case (lovdFile c, clinvarFile c) of
        (Some lovd, Some clinvar) \<Rightarrow>
          (let savePath = mergeSavePath c ''lovd_clinvar_'' in
           mergeTry c savePath
             (WORKSPACE_MERGE ''lovd_clinvar'' savePath (override c)
                [(''lovdFile'', file_id lovd), (''clinvarFile'', file_id clinvar)])
             ''Error merging LOVD & ClinVar files:'' resolves)
      | _ \<Rightarrow> [])"

record 'tree ToolbarGroupItemProps =
  group :: string
  label :: string
  onClick :: "'tree ToolbarContext \<Rightarrow> outcomes \<Rightarrow> event list"

definition MergeGroupButtons_buttons :: "'tree ToolbarGroupItemProps list" where
  "MergeGroupButtons_buttons =
     [\<lparr>group = ''merge'', label = ''Merge All'', onClick = mergeAllClick\<rparr>,
      \<lparr>group = ''merge'', label = ''Merge LOVD & gnomAD'', onClick = mergeLovdAndGnomadClick\<rparr>,
      \<lparr>group = ''merge'', label = ''Merge LOVD & ClinVar'', onClick = mergeLovdAndClinvarClick\<rparr>]"

subsection \<open>Reading a trace\<close>

text \<open>The requests of a trace, in order.\<close>

fun requests :: "event list \<Rightarrow> request list" where
  "requests [] = []"
| "requests (Get r # es) = r # requests es"
| "requests (e # es) = requests es"

text \<open>The stretches of a trace between one request and the next: \<open>gapsFrom cur es\<close> closes
  the stretch \<open>cur\<close> (kept in reverse) at each request of \<open>es\<close>; what follows the last
  request is no gap, nor is what precedes the first.\<close>

fun gapsFrom :: "event list \<Rightarrow> event list \<Rightarrow> event list list" where
  "gapsFrom cur [] = []"
| "gapsFrom cur (Get r # es) = rev cur # gapsFrom [] es"
| "gapsFrom cur (e # es) = gapsFrom (e # cur) es"

definition gaps :: "event list \<Rightarrow> event list list" where
  "gaps es = tl (gapsFrom [] es)"

text \<open>The timers awaited in a stretch.\<close>

fun timers :: "event list \<Rightarrow> nat list" where
  "timers [] = []"
| "timers (SetTimeout ms # es) = ms # timers es"
| "timers (e # es) = timers es"



text \<open>The kind of a merge request and the names of its source parameters.\<close>

fun mergeKind :: "request \<Rightarrow> string" where
  "mergeKind (WORKSPACE_MERGE kind savePath ov files) = kind"
| "mergeKind r = ''''"

fun mergeSources :: "request \<Rightarrow> string list" where
  "mergeSources (WORKSPACE_MERGE kind savePath ov files) = map fst files"
| "mergeSources r = []"


subsection \<open>An example context\<close>

text \<open>A file extension as the text after the last dot, for the examples.\<close>

definition afterLastDot :: "string \<Rightarrow> string" where
  "afterLastDot p = rev (takeWhile (\<lambda>ch. ch \<noteq> CHR ''.'') (rev p))"

text \<open>Nothing selected, the default target, unique names as asked for.\<close>

definition exampleContext :: "unit ToolbarContext" where
  "exampleContext =
     \<lparr>fileTree = (), saveTo = \<lparr>objref = 0, file_id = ''/''\<rparr>,
      defaultSaveTo = \<lparr>objref = 0, file_id = ''/''\<rparr>, override = False, gene = ''BRCA1'',
      lovdFile = None, clinvarFile = None, gnomadFile = None, customFile = None,
      findUniqueFileName = (\<lambda>t name. name), generateTimestamp = (\<lambda>k. ''T''),
      getFileExtension = afterLastDot\<rparr>"

text \<open>The same with three source files selected and a target chosen by the user.\<close>

definition exampleSelection :: "string \<Rightarrow> unit ToolbarContext" where
  "exampleSelection target =
     exampleContext
       \<lparr>saveTo := \<lparr>objref = 1, file_id = target\<rparr>,
        lovdFile := Some \<lparr>objref = 2, file_id = ''lovd.txt''\<rparr>,
        clinvarFile := Some \<lparr>objref = 3, file_id = ''clinvar.csv''\<rparr>,
        gnomadFile := Some \<lparr>objref = 4, file_id = ''gnomad.csv''\<rparr>\<rparr>"


section \<open>The editor view (unnamed source part 2): \<open>EditorView\<close>\<close>

subsection \<open>The types of the editor\<close>

text \<open>Modelled from the spec: the enum \<open>SortEnum\<close> is imported from
  \<open>@/features/editor/types\<close>, which is not among the sources. Its members are the two
  directions of a sort and the member \<open>NONE\<close> the handler tests for.\<close>

datatype SortEnum = SortEnum_ASC | SortEnum_DESC | SortEnum_NONE

text \<open>Modelled from the spec: the enum \<open>FilterEnum\<close> is imported from
  \<open>@/features/editor/types\<close>, which is not among the sources. Its members are the
  operators contains, equals, greaterThan and lessThan.\<close>

datatype FilterEnum =
  FilterEnum_CONTAINS | FilterEnum_EQUALS | FilterEnum_GREATER_THAN | FilterEnum_LESS_THAN

text \<open>Modelled from the spec: the enum \<open>FileContentAggregationActions\<close> is imported from
  \<open>@/features/editor/types\<close>, which is not among the sources. Its members are the actions
  sum, avg, min, max, count and none.\<close>

datatype FileContentAggregationActions =
  Actions_SUM | Actions_AVG | Actions_MIN | Actions_MAX | Actions_COUNT | Actions_NONE

text \<open>A cell is text. The three mappings of the file content are JavaScript objects
  keyed by column name: \<open>sorts\<close> holds a direction, \<open>filters\<close> an object
  \<open>{operator, value}\<close>, \<open>aggregations\<close> an object \<open>{action, value}\<close>.\<close>

type_synonym cell = string
type_synonym sortsModel = "string \<rightharpoonup> SortEnum"
type_synonym filtersModel = "string \<rightharpoonup> FilterEnum \<times> string"
type_synonym aggregationsModel = "string \<rightharpoonup> FileContentAggregationActions \<times> string"

text \<open>
  The fields of the records below carry a prefix where the source uses one name in
  several types (\<open>page\<close>, \<open>rowsPerPage\<close>, \<open>header\<close>, \<open>rows\<close>): \<open>resp_\<close> for
  \<open>FileDataResponseDTO\<close>, \<open>req_\<close> for \<open>FileDataRequestDTO\<close>, \<open>fp_\<close> for the pagination of
  the file, \<open>pm_\<close> for the pagination model of the grid. A response may come without a
  header (\<open>if (!header)\<close>).
\<close>

record FileDataResponseDTO =
  resp_totalRows :: int
  resp_header :: "string list option"
  resp_rows :: "cell list list"
  resp_page :: int

text \<open>The cells of a request are read from the grid with \<open>getCellValue\<close>, which is
  \<open>undefined\<close> (\<open>None\<close>) where a row has no value under a column.\<close>

record FileDataRequestDTO =
  req_page :: int
  req_rowsPerPage :: int
  req_header :: "string list"
  req_rows :: "cell option list list"

record FilePaginationModel =
  fp_page :: int
  fp_rowsPerPage :: int
  fp_totalRows :: int

record GridPaginationModel =
  pm_page :: int
  pm_pageSize :: int

text \<open>A column definition as the editor builds it (the header renderer is left out) and
  a row of the grid: an object from column name to cell. The \<open>internal_datagrid_id\<close> of a
  row is its position in the list of rows.\<close>

record GridColDef =
  field :: string
  headerName :: string
  flex :: nat
  minWidth :: nat
  editable :: bool

type_synonym gridRow = "string \<rightharpoonup> cell"

record FileContentModel =
  columns :: "GridColDef list"
  rows :: "gridRow list"
  aggregations :: aggregationsModel
  sorts :: sortsModel
  filters :: filtersModel

text \<open>What the grid holds behind \<open>apiRef\<close>: the columns and rows it was rendered with,
  the rows with the edits of the user.\<close>

record GridApi =
  getAllColumns :: "GridColDef list"
  gridRows :: "gridRow list"

text \<open>The state the component reads and writes: the workspace store (\<open>file.id\<close>,
  \<open>fileContent\<close>, \<open>filePagination\<close>), the session and status stores (\<open>connected\<close>, \<open>blocked\<close>,
  \<open>unsaved\<close>), its own \<open>useState\<close> cells and the grid.\<close>

record EditorViewState =
  connected :: bool
  fileId :: string
  fileContent :: FileContentModel
  filePagination :: FilePaginationModel
  fileContentResponse :: FileDataResponseDTO
  isLoading :: bool
  blocked :: bool
  unsaved :: bool
  isConfirmDialogOpen :: bool
  pendingModel :: "GridPaginationModel option"
  paginationModel :: GridPaginationModel
  apiRef :: GridApi

text \<open>The requests of the editor:
  \<^item> \<open>GET ${Endpoints.WORKSPACE_FILE}/${file.id}\<close> with params \<open>page, rowsPerPage, sorts, filters\<close>;
  \<^item> \<open>PUT ${Endpoints.WORKSPACE_FILE}/${file.id}\<close> with the data and params \<open>sorts, filters\<close>;
  \<^item> \<open>GET ${Endpoints.WORKSPACE_AGGREGATE}/${file.id}\<close> with params \<open>field, action\<close>;
  \<^item> \<open>GET ${Endpoints.WORKSPACE_AGGREGATE}/all/${file.id}\<close> with param \<open>columnsAggregation\<close>.\<close>

datatype editorRequest =
  GetWorkspaceFile string int int sortsModel filtersModel
| PutWorkspaceFile string FileDataRequestDTO sortsModel filtersModel
| GetWorkspaceAggregate string string FileContentAggregationActions
| GetWorkspaceAggregateAll string aggregationsModel

text \<open>The answer to a request is a parameter of the handler that awaits it: \<open>None\<close> is a
  rejected request, \<open>Some\<close> the data of the response.\<close>

record AggregateResponse =
  responseField :: string
  responseAction :: FileContentAggregationActions
  responseValue :: string

subsection \<open>The store updater\<close>

text \<open>\<open>fileStateUpdate(file, fileContent, filePagination)\<close> belongs to the workspace
  store, which is not among the sources; by every use of it here an \<open>undefined\<close> argument
  leaves that part of the store as it is. The editor never passes a file.\<close>

definition fileStateUpdate ::
  "FileContentModel option \<Rightarrow> FilePaginationModel option \<Rightarrow> EditorViewState \<Rightarrow> EditorViewState" where
  "fileStateUpdate newContent newPagination s =
     (let s1 = (case newContent of None \<Rightarrow> s | Some c \<Rightarrow> s\<lparr>fileContent := c\<rparr>)
      in case newPagination of None \<Rightarrow> s1 | Some p \<Rightarrow> s1\<lparr>filePagination := p\<rparr>)"

definition blockedStateUpdate :: "bool \<Rightarrow> EditorViewState \<Rightarrow> EditorViewState" where
  "blockedStateUpdate b s = s\<lparr>blocked := b\<rparr>"

definition unsavedStateUpdate :: "bool \<Rightarrow> EditorViewState \<Rightarrow> EditorViewState" where
  "unsavedStateUpdate b s = s\<lparr>unsaved := b\<rparr>"

subsection \<open>Fetching and parsing the window\<close>

definition emptyResponse :: FileDataResponseDTO where
  "emptyResponse = \<lparr>resp_totalRows = 0, resp_header = Some [], resp_rows = [], resp_page = 0\<rparr>"

text \<open>The request \<open>getWorkspaceFile\<close> sends.\<close>

definition fetchRequest :: "EditorViewState \<Rightarrow> editorRequest" where
  "fetchRequest s =
     GetWorkspaceFile (fileId s) (fp_page (filePagination s)) (fp_rowsPerPage (filePagination s))
       (sorts (fileContent s)) (filters (fileContent s))"

text \<open>\<open>getWorkspaceFile\<close>: without a file the response is reset and nothing is sent;
  otherwise the window is requested and, when the request resolves, stored; a rejection
  is logged and leaves the response as it was.\<close>

definition getWorkspaceFile ::
  "FileDataResponseDTO option \<Rightarrow> EditorViewState \<Rightarrow> EditorViewState \<times> editorRequest list" where
  "getWorkspaceFile response s =
     (if fileId s = '''' then (s\<lparr>fileContentResponse := emptyResponse\<rparr>, [])
      else
        (let s1 = blockedStateUpdate True s;
             s2 = (case response of None \<Rightarrow> s1 | Some data \<Rightarrow> s1\<lparr>fileContentResponse := data\<rparr>)
         in (blockedStateUpdate False (s2\<lparr>isLoading := False\<rparr>), [fetchRequest s])))"

text \<open>The file content fetching effect: \<open>if (connected) getWorkspaceFile()\<close>.\<close>

definition fetchEffect ::
  "FileDataResponseDTO option \<Rightarrow> EditorViewState \<Rightarrow> EditorViewState \<times> editorRequest list" where
  "fetchEffect response s = (if connected s then getWorkspaceFile response s else (s, []))"

text \<open>One row of the response as an object: the \<open>reduce\<close> assigns the value at index \<open>i\<close>
  to the key \<open>header[i]\<close>, which is \<open>undefined\<close> beyond the header.\<close>

fun parseRow :: "string list \<Rightarrow> nat \<Rightarrow> cell list \<Rightarrow> gridRow \<Rightarrow> gridRow" where
  "parseRow header i [] acc = acc"
| "parseRow header i (v # vs) acc =
     parseRow header (Suc i) vs (acc((if i < length header then header ! i else ''undefined'') \<mapsto> v))"

definition parsedColumns :: "string list \<Rightarrow> GridColDef list" where
  "parsedColumns header =
     map (\<lambda>v. \<lparr>field = v, headerName = v, flex = 1, minWidth = 150, editable = True\<rparr>) header"

definition parsedRows :: "string list \<Rightarrow> cell list list \<Rightarrow> gridRow list" where
  "parsedRows header rs = map (\<lambda>row. parseRow header 0 row Map.empty) rs"

text \<open>The grid is rendered with \<open>rows={fileContent.rows}\<close> and
  \<open>columns={fileContent.columns}\<close>.\<close>

definition render :: "EditorViewState \<Rightarrow> EditorViewState" where
  "render s = s\<lparr>apiRef := \<lparr>getAllColumns = columns (fileContent s), gridRows = rows (fileContent s)\<rparr>\<rparr>"

text \<open>The effect that parses the stored response into the file content, followed by the
  rendering of the grid with it.\<close>

definition parseEffect :: "EditorViewState \<Rightarrow> EditorViewState" where
  "parseEffect s =
     (let r = fileContentResponse s; fc = fileContent s in
      case resp_header r of
        None \<Rightarrow>
          render (fileStateUpdate
            (Some \<lparr>columns = [], rows = [], aggregations = aggregations fc, sorts = sorts fc,
                   filters = filters fc\<rparr>) None s)
      | Some header \<Rightarrow>
          render (fileStateUpdate
            (Some \<lparr>columns = parsedColumns header, rows = parsedRows header (resp_rows r),
                   aggregations = aggregations fc, sorts = sorts fc, filters = filters fc\<rparr>)
            (Some \<lparr>fp_page = fp_page (filePagination s),
                   fp_rowsPerPage = fp_rowsPerPage (filePagination s),
                   fp_totalRows = resp_totalRows r\<rparr>) s))"

text \<open>An edit of the user: \<open>onCellEditStart\<close> marks the view unsaved, the grid keeps the
  new value of the cell.\<close>

definition onCellEditStart :: "EditorViewState \<Rightarrow> EditorViewState" where
  "onCellEditStart s = unsavedStateUpdate True s"

definition editCell :: "nat \<Rightarrow> string \<Rightarrow> cell \<Rightarrow> EditorViewState \<Rightarrow> EditorViewState" where
  "editCell rowId column v s =
     (let g = apiRef s in
      onCellEditStart
        (s\<lparr>apiRef := g\<lparr>gridRows :=
              (if rowId < length (gridRows g)
               then (gridRows g)[rowId := (gridRows g ! rowId)(column \<mapsto> v)]
               else gridRows g)\<rparr>\<rparr>))"

subsection \<open>Saving\<close>

text \<open>The body of the save request: the pagination of the store, and the header and the
  cells read from the grid, row by row and column by column.\<close>

definition saveData :: "EditorViewState \<Rightarrow> FileDataRequestDTO" where
  "saveData s =
     \<lparr>req_page = fp_page (filePagination s),
      req_rowsPerPage = fp_rowsPerPage (filePagination s),
      req_header = map field (getAllColumns (apiRef s)),
      req_rows = map (\<lambda>row. map (\<lambda>column. row (field column)) (getAllColumns (apiRef s)))
                   (gridRows (apiRef s))\<rparr>"

definition saveRequest :: "EditorViewState \<Rightarrow> editorRequest" where
  "saveRequest s =
     PutWorkspaceFile (fileId s) (saveData s) (sorts (fileContent s)) (filters (fileContent s))"

definition aggregateAllRequest :: "EditorViewState \<Rightarrow> editorRequest" where
  "aggregateAllRequest s = GetWorkspaceAggregateAll (fileId s) (aggregations (fileContent s))"

text \<open>
  \<open>handleSave\<close>, with the three answers it awaits: whether the \<open>PUT\<close> resolves, the
  response to the fetch of \<open>getWorkspaceFile\<close> and the aggregations returned for all
  columns. A rejected \<open>PUT\<close> or aggregation request ends at the \<open>catch\<close>;
  \<open>getWorkspaceFile\<close> catches its own rejection. The file content written back at the end
  is the one the handler was created with, \<open>{ ...fileContent, aggregations }\<close>.
\<close>

definition handleSave ::
  "bool \<Rightarrow> FileDataResponseDTO option \<Rightarrow> aggregationsModel option \<Rightarrow> EditorViewState
    \<Rightarrow> EditorViewState \<times> editorRequest list" where
  "handleSave putResolves fileResponse aggregateResponse s =
     (let s1 = blockedStateUpdate True s in
      if \<not> putResolves then (blockedStateUpdate False s1, [saveRequest s])
      else
        (let (s2, fetched) = getWorkspaceFile fileResponse s1 in
         case aggregateResponse of
           None \<Rightarrow> (blockedStateUpdate False s2, saveRequest s # fetched @ [aggregateAllRequest s])
         | Some responseColumnsAggregation \<Rightarrow>
             (blockedStateUpdate False
                (fileStateUpdate
                   (Some ((fileContent s)\<lparr>aggregations := responseColumnsAggregation\<rparr>)) None s2),
              saveRequest s # fetched @ [aggregateAllRequest s])))"

subsection \<open>Aggregating, sorting, filtering\<close>

text \<open>\<open>handleAggregation\<close>, with the answer to the one request it may await.\<close>

definition handleAggregation ::
  "string \<Rightarrow> FileContentAggregationActions \<Rightarrow> AggregateResponse option \<Rightarrow> EditorViewState
    \<Rightarrow> EditorViewState \<times> editorRequest list" where
  "handleAggregation column action response s =
     (let fc = fileContent s in
      if action = Actions_NONE then
        (fileStateUpdate (Some (fc\<lparr>aggregations := (aggregations fc)(column := None)\<rparr>)) None s, [])
      else
        (let s1 = blockedStateUpdate True s;
             s2 = (case response of
                     None \<Rightarrow> s1
                   | Some r \<Rightarrow>
                       fileStateUpdate
                         (Some (fc\<lparr>aggregations :=
                            (aggregations fc)(responseField r \<mapsto> (responseAction r, responseValue r))\<rparr>))
                         None s1)
         in (blockedStateUpdate False s2, [GetWorkspaceAggregate (fileId s) column action])))"

definition handleSort :: "string \<Rightarrow> SortEnum \<Rightarrow> EditorViewState \<Rightarrow> EditorViewState" where
  "handleSort column direction s =
     (if direction = SortEnum_NONE
      then fileStateUpdate (Some ((fileContent s)\<lparr>sorts := Map.empty\<rparr>)) None s
      else fileStateUpdate (Some ((fileContent s)\<lparr>sorts := [column \<mapsto> direction]\<rparr>)) None s)"

definition handleFilter :: "string \<Rightarrow> FilterEnum \<Rightarrow> string \<Rightarrow> EditorViewState \<Rightarrow> EditorViewState" where
  "handleFilter column operator v s =
     fileStateUpdate (Some ((fileContent s)\<lparr>filters := [column \<mapsto> (operator, v)]\<rparr>)) None s"

definition handleFilterClear :: "EditorViewState \<Rightarrow> EditorViewState" where
  "handleFilterClear s = fileStateUpdate (Some ((fileContent s)\<lparr>filters := Map.empty\<rparr>)) None s"

subsection \<open>Changing the page\<close>

definition applyPaginationModel :: "GridPaginationModel \<Rightarrow> EditorViewState \<Rightarrow> EditorViewState" where
  "applyPaginationModel model s =
     (fileStateUpdate None
        (Some \<lparr>fp_page = pm_page model, fp_rowsPerPage = pm_pageSize model,
               fp_totalRows = fp_totalRows (filePagination s)\<rparr>) s)
     \<lparr>paginationModel := model\<rparr>"

definition onPaginationModelChange :: "GridPaginationModel \<Rightarrow> EditorViewState \<Rightarrow> EditorViewState" where
  "onPaginationModelChange model s =
     (if unsaved s then s\<lparr>pendingModel := Some model, isConfirmDialogOpen := True\<rparr>
      else applyPaginationModel model s)"

definition handleConfirm :: "EditorViewState \<Rightarrow> EditorViewState" where
  "handleConfirm s =
     (case pendingModel s of
        None \<Rightarrow> s\<lparr>isConfirmDialogOpen := False\<rparr>
      | Some model \<Rightarrow> (applyPaginationModel model s)\<lparr>pendingModel := None, isConfirmDialogOpen := False\<rparr>)"

definition handleCancel :: "EditorViewState \<Rightarrow> EditorViewState" where
  "handleCancel s = s\<lparr>pendingModel := None, isConfirmDialogOpen := False\<rparr>"

subsection \<open>An example state\<close>

text \<open>The state of the component when it mounts on a file, before the first fetch.\<close>

definition mounted :: "string \<Rightarrow> EditorViewState" where
  "mounted f =
     \<lparr>connected = True, fileId = f,
      fileContent = \<lparr>columns = [], rows = [], aggregations = Map.empty, sorts = Map.empty,
                     filters = Map.empty\<rparr>,
      filePagination = \<lparr>fp_page = 0, fp_rowsPerPage = 25, fp_totalRows = 0\<rparr>,
      fileContentResponse = emptyResponse,
      isLoading = False, blocked = False, unsaved = False, isConfirmDialogOpen = False,
      pendingModel = None, paginationModel = \<lparr>pm_page = 0, pm_pageSize = 25\<rparr>,
      apiRef = \<lparr>getAllColumns = [], gridRows = []\<rparr>\<rparr>"

text \<open>A window of two rows, as a response.\<close>

definition exampleWindow :: FileDataResponseDTO where
  "exampleWindow =
     \<lparr>resp_totalRows = 60, resp_header = Some [''chr'', ''pos''],
      resp_rows = [[''1'', ''10''], [''2'', ''30'']], resp_page = 0\<rparr>"

text \<open>The states of a run in which the fetch of the second page fails: the window of the
  first page has been fetched and parsed; then the user, with nothing unsaved, moves to
  page 1 and the fetch this triggers is rejected.\<close>

definition firstPageShown :: EditorViewState where
  "firstPageShown = parseEffect (fst (getWorkspaceFile (Some exampleWindow) (mounted ''f.csv'')))"



text \<open>The first page on display with two columns aggregated.\<close>

definition twoAggregations :: EditorViewState where
  "twoAggregations =
     fst (handleAggregation ''chr'' Actions_COUNT
            (Some \<lparr>responseField = ''chr'', responseAction = Actions_COUNT, responseValue = ''2''\<rparr>)
            (fst (handleAggregation ''pos'' Actions_AVG
                    (Some \<lparr>responseField = ''pos'', responseAction = Actions_AVG, responseValue = ''20''\<rparr>)
                    firstPageShown)))"

subsection \<open>Reading the requests of the editor\<close>


fun isAggregate :: "editorRequest \<Rightarrow> bool" where
  "isAggregate (GetWorkspaceAggregate f column action) = True"
| "isAggregate r = False"

fun isAggregateAll :: "editorRequest \<Rightarrow> bool" where
  "isAggregateAll (GetWorkspaceAggregateAll f spec) = True"
| "isAggregateAll r = False"


section \<open>Properties of the pagination bar\<close>







section \<open>Properties of the toolbar\<close>

lemmas performAll_defs =
  handlePerformAllClick_def performAllTry_def pause_def automatedTaskFailed_def

lemmas performAll2_defs =
  handlePerformAllClick2_def stage_def

lemmas merge_defs =
  mergeAllClick_def mergeLovdAndGnomadClick_def mergeLovdAndClinvarClick_def
  mergeTry_def unlessSelected_def

lemmas example_defs =
  exampleContext_def exampleSelection_def afterLastDot_def






lemma gapsFrom_length: "length (gapsFrom cur es) = length (requests es)"
  by (induction cur es rule: gapsFrom.induct) auto

lemma gaps_length: "length (gaps es) = length (requests es) - 1"
  by (simp add: gaps_def gapsFrom_length)

text \<open>
  Claim C3. In both variants of the pipeline, whatever the backend answers, the stretch
  between one request and the next awaits exactly one timer, and that timer is the
  constant 500 ms; there are as many such stretches as requests but one. Nothing else is
  awaited there: the other effects of a stretch are store updates and console messages.
\<close>

theorem perform_all_fixed_delay:
  "list_all (\<lambda>g. timers g = [500]) (gaps (handlePerformAllClick c resolves))
   \<and> list_all (\<lambda>g. timers g = [500]) (gaps (handlePerformAllClick2 c resolves))
   \<and> length (gaps (handlePerformAllClick c resolves))
       = length (requests (handlePerformAllClick c resolves)) - 1
   \<and> length (gaps (handlePerformAllClick2 c resolves))
       = length (requests (handlePerformAllClick2 c resolves)) - 1"
proof -
  have "list_all (\<lambda>g. timers g = [500]) (gaps (handlePerformAllClick c resolves))"
    by (simp add: performAll_defs gaps_def)
  moreover have "list_all (\<lambda>g. timers g = [500]) (gaps (handlePerformAllClick2 c resolves))"
    by (simp add: performAll2_defs gaps_def)
  ultimately show ?thesis by (simp add: gaps_length)
qed

theorem perform_all_fixed_delay_witness:
  "gaps (handlePerformAllClick exampleContext (\<lambda>k. k < 2)) =
     [[SetTimeout 500, BlockedStateUpdate True], [SetTimeout 500, BlockedStateUpdate True]]
   \<and> list_all (\<lambda>g. timers g = [500]) (gaps (handlePerformAllClick exampleContext (\<lambda>k. k < 2)))
   \<and> length (gaps (handlePerformAllClick2 exampleContext (\<lambda>k. k < 2))) = 4"
proof -
  have "gaps (handlePerformAllClick exampleContext (\<lambda>k. k < 2)) =
     [[SetTimeout 500, BlockedStateUpdate True], [SetTimeout 500, BlockedStateUpdate True]]"
    by (simp add: performAll_defs gaps_def example_defs revelSavePath_def)
  moreover have "length (requests (handlePerformAllClick2 exampleContext (\<lambda>k. k < 2))) = 5"
    by (simp add: performAll2_defs example_defs applyAllSavePath_def)
  ultimately show ?thesis
    using perform_all_fixed_delay [of exampleContext "\<lambda>k. k < 2"] by simp
qed

text \<open>
  Claim C4, as amended. The merge group offers three named presets, in this order:
  \<open>Merge All\<close>, which joins the four sources LOVD, ClinVar, gnomAD and the custom file, and
  the two pair joins \<open>Merge LOVD & gnomAD\<close> and \<open>Merge LOVD & ClinVar\<close>. With its source
  files selected and a \<open>csv\<close> target each sends exactly one merge request, of the kind
  \<open>all\<close>, \<open>lovd_gnomad\<close> and \<open>lovd_clinvar\<close>.
\<close>

theorem merge_presets:
  assumes "lovdFile c = Some lovd" "clinvarFile c = Some clinvar" "gnomadFile c = Some gnomad"
    and "getFileExtension c (mergeSavePath c ''all_merged_'') = ''csv''"
    and "getFileExtension c (mergeSavePath c ''lovd_gnomad_'') = ''csv''"
    and "getFileExtension c (mergeSavePath c ''lovd_clinvar_'') = ''csv''"
  shows "map label (MergeGroupButtons_buttons :: 'tree ToolbarGroupItemProps list)
      = [''Merge All'', ''Merge LOVD & gnomAD'', ''Merge LOVD & ClinVar'']
    \<and> map (\<lambda>b. map mergeKind (requests (onClick b c resolves))) MergeGroupButtons_buttons
      = [[''all''], [''lovd_gnomad''], [''lovd_clinvar'']]
    \<and> map (\<lambda>b. map mergeSources (requests (onClick b c resolves))) MergeGroupButtons_buttons
      = [[[''lovdFile'', ''clinvarFile'', ''gnomadFile'', ''customFile'']],
         [[''lovdFile'', ''gnomadFile'']],
         [[''lovdFile'', ''clinvarFile'']]]"
  using assms by (simp add: MergeGroupButtons_buttons_def merge_defs)

theorem merge_presets_witness:
  "map (\<lambda>b. requests (onClick b (exampleSelection ''merged.csv'') (\<lambda>k. True)))
     MergeGroupButtons_buttons
   = [[WORKSPACE_MERGE ''all'' ''merged.csv'' False
         [(''lovdFile'', ''lovd.txt''), (''clinvarFile'', ''clinvar.csv''),
          (''gnomadFile'', ''gnomad.csv''), (''customFile'', '''')]],
      [WORKSPACE_MERGE ''lovd_gnomad'' ''merged.csv'' False
         [(''lovdFile'', ''lovd.txt''), (''gnomadFile'', ''gnomad.csv'')]],
      [WORKSPACE_MERGE ''lovd_clinvar'' ''merged.csv'' False
         [(''lovdFile'', ''lovd.txt''), (''clinvarFile'', ''clinvar.csv'')]]]
   \<and> map (\<lambda>b. map mergeKind (requests (onClick b (exampleSelection ''merged.csv'') (\<lambda>k. True))))
       MergeGroupButtons_buttons
     = [[''all''], [''lovd_gnomad''], [''lovd_clinvar'']]"
proof -
  have files: "lovdFile (exampleSelection ''merged.csv'') = Some \<lparr>objref = 2, file_id = ''lovd.txt''\<rparr>"
    "clinvarFile (exampleSelection ''merged.csv'') = Some \<lparr>objref = 3, file_id = ''clinvar.csv''\<rparr>"
    "gnomadFile (exampleSelection ''merged.csv'') = Some \<lparr>objref = 4, file_id = ''gnomad.csv''\<rparr>"
    by (simp_all add: example_defs)
  have ext: "getFileExtension (exampleSelection ''merged.csv'')
      (mergeSavePath (exampleSelection ''merged.csv'') prefix) = ''csv''" for prefix
    by (simp add: example_defs mergeSavePath_def)
  have reqs: "map (\<lambda>b. requests (onClick b (exampleSelection ''merged.csv'') (\<lambda>k. True)))
     MergeGroupButtons_buttons
   = [[WORKSPACE_MERGE ''all'' ''merged.csv'' False
         [(''lovdFile'', ''lovd.txt''), (''clinvarFile'', ''clinvar.csv''),
          (''gnomadFile'', ''gnomad.csv''), (''customFile'', '''')]],
      [WORKSPACE_MERGE ''lovd_gnomad'' ''merged.csv'' False
         [(''lovdFile'', ''lovd.txt''), (''gnomadFile'', ''gnomad.csv'')]],
      [WORKSPACE_MERGE ''lovd_clinvar'' ''merged.csv'' False
         [(''lovdFile'', ''lovd.txt''), (''clinvarFile'', ''clinvar.csv'')]]]"
    by (simp add: MergeGroupButtons_buttons_def merge_defs example_defs mergeSavePath_def
        customFileId_def)
  from merge_presets [OF files ext ext ext, of "\<lambda>k. True"] reqs show ?thesis by blast
qed

text \<open>Claim C4 as stated fails: the presets offered are three, not two.\<close>

theorem merge_presets_not_two:
  "length (MergeGroupButtons_buttons :: unit ToolbarGroupItemProps list) = 3
   \<and> length (MergeGroupButtons_buttons :: unit ToolbarGroupItemProps list) \<noteq> 2
   \<and> distinct (map label (MergeGroupButtons_buttons :: unit ToolbarGroupItemProps list))"
  by (simp add: MergeGroupButtons_buttons_def)



section \<open>Parsing a window and reading it back\<close>





section \<open>Properties of the editor view\<close>

lemmas store_defs = fileStateUpdate_def blockedStateUpdate_def unsavedStateUpdate_def




text \<open>
  Claim C5. Whatever the sorts and filters were, a sort on a column leaves exactly that
  column in \<open>sorts\<close>, an unsort leaves \<open>sorts\<close> empty, a filter on a column leaves exactly
  that column in \<open>filters\<close>, and clearing leaves \<open>filters\<close> empty: each mapping holds at most
  one entry after any of these actions. The mappings themselves are general
  (\<open>sortsModel\<close>, \<open>filtersModel\<close>), and a sort touches nothing but \<open>sorts\<close>, a filter nothing
  but \<open>filters\<close>.
\<close>

theorem single_sort_and_filter:
  "sorts (fileContent (handleSort column direction s))
      = (if direction = SortEnum_NONE then Map.empty else [column \<mapsto> direction])
   \<and> filters (fileContent (handleFilter column operator v s)) = [column \<mapsto> (operator, v)]
   \<and> filters (fileContent (handleFilterClear s)) = Map.empty
   \<and> card (dom (sorts (fileContent (handleSort column direction s)))) \<le> 1
   \<and> card (dom (filters (fileContent (handleFilter column operator v s)))) \<le> 1
   \<and> card (dom (filters (fileContent (handleFilterClear s)))) \<le> 1
   \<and> handleSort column direction s
      = s\<lparr>fileContent := (fileContent s)\<lparr>sorts := sorts (fileContent (handleSort column direction s))\<rparr>\<rparr>
   \<and> handleFilter column operator v s
      = s\<lparr>fileContent := (fileContent s)\<lparr>filters := [column \<mapsto> (operator, v)]\<rparr>\<rparr>
   \<and> handleFilterClear s = s\<lparr>fileContent := (fileContent s)\<lparr>filters := Map.empty\<rparr>\<rparr>"
  by (simp add: handleSort_def handleFilter_def handleFilterClear_def store_defs)

theorem single_sort_and_filter_witness:
  "sorts (fileContent (handleSort ''pos'' SortEnum_DESC
      (handleFilter ''chr'' FilterEnum_EQUALS ''1'' (handleSort ''chr'' SortEnum_ASC (mounted ''f.csv'')))))
     = [''pos'' \<mapsto> SortEnum_DESC]
   \<and> sorts (fileContent (handleSort ''pos'' SortEnum_NONE
      (handleFilter ''chr'' FilterEnum_EQUALS ''1'' (handleSort ''chr'' SortEnum_ASC (mounted ''f.csv'')))))
     = Map.empty
   \<and> filters (fileContent (handleFilter ''pos'' FilterEnum_GREATER_THAN ''10''
      (handleFilter ''chr'' FilterEnum_EQUALS ''1'' (handleSort ''chr'' SortEnum_ASC (mounted ''f.csv'')))))
     = [''pos'' \<mapsto> (FilterEnum_GREATER_THAN, ''10'')]
   \<and> filters (fileContent (handleFilterClear
      (handleFilter ''chr'' FilterEnum_EQUALS ''1'' (handleSort ''chr'' SortEnum_ASC (mounted ''f.csv'')))))
     = Map.empty"
  using single_sort_and_filter
      [where column = "''pos''" and direction = SortEnum_DESC and operator = FilterEnum_GREATER_THAN
        and v = "''10''"
        and s = "handleFilter ''chr'' FilterEnum_EQUALS ''1'' (handleSort ''chr'' SortEnum_ASC (mounted ''f.csv''))"]
    single_sort_and_filter
      [where column = "''pos''" and direction = SortEnum_NONE
        and s = "handleFilter ''chr'' FilterEnum_EQUALS ''1'' (handleSort ''chr'' SortEnum_ASC (mounted ''f.csv''))"]
  by simp

text \<open>
  Claim C6. With the action \<open>none\<close> the handler sends nothing and removes the entry of the
  column from the aggregations, leaving the other entries. With any other action it sends
  exactly one request, the aggregation of that column with that action; when the request
  resolves, the returned action and value are stored under the returned field, and when
  it is rejected the aggregations stay as they were.
\<close>

theorem aggregation_none_is_local:
  "(action = Actions_NONE \<longrightarrow>
      snd (handleAggregation column action response s) = []
      \<and> aggregations (fileContent (fst (handleAggregation column action response s)))
          = (aggregations (fileContent s))(column := None))
   \<and> (action \<noteq> Actions_NONE \<longrightarrow>
      snd (handleAggregation column action response s)
          = [GetWorkspaceAggregate (fileId s) column action]
      \<and> aggregations (fileContent (fst (handleAggregation column action response s)))
          = (case response of
               None \<Rightarrow> aggregations (fileContent s)
             | Some r \<Rightarrow> (aggregations (fileContent s))
                           (responseField r \<mapsto> (responseAction r, responseValue r))))"
  by (simp add: handleAggregation_def store_defs Let_def split: option.splits)

theorem aggregation_none_is_local_witness:
  "snd (handleAggregation ''pos'' Actions_AVG
         (Some \<lparr>responseField = ''pos'', responseAction = Actions_AVG, responseValue = ''2.33''\<rparr>)
         (mounted ''f.csv''))
     = [GetWorkspaceAggregate ''f.csv'' ''pos'' Actions_AVG]
   \<and> aggregations (fileContent (fst (handleAggregation ''pos'' Actions_AVG
         (Some \<lparr>responseField = ''pos'', responseAction = Actions_AVG, responseValue = ''2.33''\<rparr>)
         (mounted ''f.csv''))))
     = [''pos'' \<mapsto> (Actions_AVG, ''2.33'')]
   \<and> snd (handleAggregation ''pos'' Actions_NONE None
         (fst (handleAggregation ''pos'' Actions_AVG
           (Some \<lparr>responseField = ''pos'', responseAction = Actions_AVG, responseValue = ''2.33''\<rparr>)
           (mounted ''f.csv'')))) = []
   \<and> aggregations (fileContent (fst (handleAggregation ''pos'' Actions_NONE None
         (fst (handleAggregation ''pos'' Actions_AVG
           (Some \<lparr>responseField = ''pos'', responseAction = Actions_AVG, responseValue = ''2.33''\<rparr>)
           (mounted ''f.csv'')))))) ''pos'' = None"
proof -
  let ?r = "\<lparr>responseField = ''pos'', responseAction = Actions_AVG, responseValue = ''2.33''\<rparr>"
  let ?s = "fst (handleAggregation ''pos'' Actions_AVG (Some ?r) (mounted ''f.csv''))"
  have id: "fileId (mounted ''f.csv'') = ''f.csv''"
    and ag: "aggregations (fileContent (mounted ''f.csv'')) = Map.empty"
    by (simp_all add: mounted_def)
  from aggregation_none_is_local
      [where action = Actions_AVG and column = "''pos''" and response = "Some ?r"
        and s = "mounted ''f.csv''"]
    aggregation_none_is_local
      [where action = Actions_NONE and column = "''pos''" and response = None and s = ?s] id ag
  show ?thesis by simp
qed

text \<open>
  Claim C7. When the \<open>PUT\<close> of a save resolves, the handler sends, after the \<open>PUT\<close> and
  the fetch of the window, exactly one aggregation request: the one for all columns,
  carrying the whole mapping of the aggregations; it sends no request for a single column,
  however many columns are aggregated; and the aggregations it gets back are stored. When
  the \<open>PUT\<close> is rejected nothing follows it.
\<close>

theorem save_recomputes_all_at_once:
  "snd (handleSave True fileResponse aggregateResponse s)
      = saveRequest s # (if fileId s = '''' then [] else [fetchRequest s])
          @ [GetWorkspaceAggregateAll (fileId s) (aggregations (fileContent s))]
   \<and> filter isAggregateAll (snd (handleSave True fileResponse aggregateResponse s))
      = [GetWorkspaceAggregateAll (fileId s) (aggregations (fileContent s))]
   \<and> filter isAggregate (snd (handleSave True fileResponse aggregateResponse s)) = []
   \<and> aggregations (fileContent (fst (handleSave True fileResponse (Some returned) s))) = returned
   \<and> snd (handleSave False fileResponse aggregateResponse s) = [saveRequest s]"
proof -
  have trace: "snd (handleSave True fileResponse aggregateResponse s)
      = saveRequest s # (if fileId s = '''' then [] else [fetchRequest s])
          @ [GetWorkspaceAggregateAll (fileId s) (aggregations (fileContent s))]"
    by (simp add: handleSave_def getWorkspaceFile_def aggregateAllRequest_def fetchRequest_def
        store_defs Let_def split: option.splits)
  have stored: "aggregations (fileContent (fst (handleSave True fileResponse (Some returned) s)))
      = returned"
    by (simp add: handleSave_def getWorkspaceFile_def store_defs Let_def split: option.splits)
  have rejected: "snd (handleSave False fileResponse aggregateResponse s) = [saveRequest s]"
    by (simp add: handleSave_def Let_def)
  from trace stored rejected show ?thesis
    by (simp add: saveRequest_def fetchRequest_def)
qed

theorem save_recomputes_all_at_once_witness:
  "snd (handleSave True (Some exampleWindow)
          (Some [''pos'' \<mapsto> (Actions_AVG, ''21''), ''chr'' \<mapsto> (Actions_COUNT, ''2'')]) twoAggregations)
     = [saveRequest twoAggregations, fetchRequest twoAggregations,
        GetWorkspaceAggregateAll ''f.csv''
          [''pos'' \<mapsto> (Actions_AVG, ''20''), ''chr'' \<mapsto> (Actions_COUNT, ''2'')]]
   \<and> aggregations (fileContent (fst (handleSave True (Some exampleWindow)
          (Some [''pos'' \<mapsto> (Actions_AVG, ''21''), ''chr'' \<mapsto> (Actions_COUNT, ''2'')]) twoAggregations)))
     = [''pos'' \<mapsto> (Actions_AVG, ''21''), ''chr'' \<mapsto> (Actions_COUNT, ''2'')]"
proof -
  have id: "fileId twoAggregations = ''f.csv''"
    and ag: "aggregations (fileContent twoAggregations)
      = [''pos'' \<mapsto> (Actions_AVG, ''20''), ''chr'' \<mapsto> (Actions_COUNT, ''2'')]"
    by (simp_all add: twoAggregations_def firstPageShown_def handleAggregation_def
        getWorkspaceFile_def parseEffect_def render_def store_defs mounted_def exampleWindow_def
        Let_def)
  from save_recomputes_all_at_once
    [where s = twoAggregations and fileResponse = "Some exampleWindow"
      and aggregateResponse = "Some [''pos'' \<mapsto> (Actions_AVG, ''21''), ''chr'' \<mapsto> (Actions_COUNT, ''2'')]"
      and returned = "[''pos'' \<mapsto> (Actions_AVG, ''21''), ''chr'' \<mapsto> (Actions_COUNT, ''2'')]"]
    id ag
  show ?thesis by simp
qed

text \<open>
  Claim C9. While the view is unsaved, a change of the pagination model changes neither
  the pagination of the file nor the model of the grid: it is kept as the pending model
  and the confirmation dialog opens. Confirming applies the pending page and page size
  (the total of rows stays) and clears it; cancelling clears it and leaves page, rows per
  page and total as they were. Either way the dialog closes.
\<close>

theorem unsaved_pagination_needs_confirmation:
  assumes "unsaved s"
  shows "filePagination (onPaginationModelChange model s) = filePagination s
    \<and> paginationModel (onPaginationModelChange model s) = paginationModel s
    \<and> pendingModel (onPaginationModelChange model s) = Some model
    \<and> isConfirmDialogOpen (onPaginationModelChange model s)
    \<and> filePagination (handleCancel (onPaginationModelChange model s)) = filePagination s
    \<and> paginationModel (handleCancel (onPaginationModelChange model s)) = paginationModel s
    \<and> pendingModel (handleCancel (onPaginationModelChange model s)) = None
    \<and> \<not> isConfirmDialogOpen (handleCancel (onPaginationModelChange model s))
    \<and> filePagination (handleConfirm (onPaginationModelChange model s))
        = \<lparr>fp_page = pm_page model, fp_rowsPerPage = pm_pageSize model,
           fp_totalRows = fp_totalRows (filePagination s)\<rparr>
    \<and> paginationModel (handleConfirm (onPaginationModelChange model s)) = model
    \<and> pendingModel (handleConfirm (onPaginationModelChange model s)) = None
    \<and> \<not> isConfirmDialogOpen (handleConfirm (onPaginationModelChange model s))"
  using assms
  by (simp add: onPaginationModelChange_def handleCancel_def handleConfirm_def
      applyPaginationModel_def store_defs)

theorem unsaved_pagination_needs_confirmation_witness:
  "unsaved (editCell 0 ''pos'' ''11'' (mounted ''f.csv''))
   \<and> fp_page (filePagination (onPaginationModelChange \<lparr>pm_page = 1, pm_pageSize = 50\<rparr>
        (editCell 0 ''pos'' ''11'' (mounted ''f.csv'')))) = 0
   \<and> fp_page (filePagination (handleCancel (onPaginationModelChange \<lparr>pm_page = 1, pm_pageSize = 50\<rparr>
        (editCell 0 ''pos'' ''11'' (mounted ''f.csv''))))) = 0
   \<and> filePagination (handleConfirm (onPaginationModelChange \<lparr>pm_page = 1, pm_pageSize = 50\<rparr>
        (editCell 0 ''pos'' ''11'' (mounted ''f.csv''))))
       = \<lparr>fp_page = 1, fp_rowsPerPage = 50, fp_totalRows = 0\<rparr>"
proof -
  have u: "unsaved (editCell 0 ''pos'' ''11'' (mounted ''f.csv''))"
    by (simp add: editCell_def onCellEditStart_def store_defs Let_def)
  have p: "filePagination (editCell 0 ''pos'' ''11'' (mounted ''f.csv''))
      = \<lparr>fp_page = 0, fp_rowsPerPage = 25, fp_totalRows = 0\<rparr>"
    by (simp add: editCell_def onCellEditStart_def store_defs Let_def mounted_def)
  from unsaved_pagination_needs_confirmation
      [OF u, where model = "\<lparr>pm_page = 1, pm_pageSize = 50\<rparr>"] u p
  show ?thesis by simp
qed

end
